theory Spec2Isabelle
  imports Main "HOL-Library.Word"
begin

section \<open>The CORS forwarding proxy (src/proxy/server.js)\<close>

text \<open>
  The request handler of \<^verbatim>\<open>server.js\<close> is embedded as a pure function from a
  fully received request to an outcome: the response written with
  \<^verbatim>\<open>res.writeHead\<close>/\<^verbatim>\<open>res.end\<close>, the list of \<^verbatim>\<open>fetch\<close> calls issued and the
  lines passed to \<^verbatim>\<open>console.error\<close>.

  The functions of the JavaScript platform that the handler calls but does not define
  (the WHATWG \<^verbatim>\<open>URL\<close> constructor and \<^verbatim>\<open>fetch\<close>) are parameters, collected in the
  record \<open>platform\<close>. \<^verbatim>\<open>JSON.stringify\<close> is not interpreted: a JSON body is kept as
  the object that is serialised.
\<close>

subsection \<open>JavaScript values\<close>

text \<open>
  A plain object with string values (\<^verbatim>\<open>req.headers\<close>, the literal built by
  \<^verbatim>\<open>corsHeaders\<close>, \<^verbatim>\<open>forwardHeaders\<close>) is an association list in insertion order; a
  well-formed object has distinct keys. Property names with a special meaning on
  \<^verbatim>\<open>Object.prototype\<close> are outside the model.
\<close>

type_synonym obj = "(string \<times> string) list"

type_synonym buffer = "8 word list"

text \<open>\<^verbatim>\<open>o[k]\<close>: the value, or \<open>None\<close> for \<^verbatim>\<open>undefined\<close>.\<close>

definition js_get :: "obj \<Rightarrow> string \<Rightarrow> string option" where
  "js_get obj k = map_of obj k"

text \<open>\<^verbatim>\<open>o[k] = v\<close>: overwrite in place when the key exists, append otherwise.\<close>

fun js_set :: "obj \<Rightarrow> string \<Rightarrow> string \<Rightarrow> obj" where
  "js_set [] k v = [(k, v)]"
| "js_set ((k', v') # rest) k v =
     (if k' = k then (k, v) # rest else (k', v') # js_set rest k v)"

text \<open>\<^verbatim>\<open>{ ...a, ...b }\<close>: the properties of \<open>b\<close> are assigned onto \<open>a\<close> in order.\<close>

fun spread :: "obj \<Rightarrow> obj \<Rightarrow> obj" where
  "spread a [] = a"
| "spread a ((k, v) # rest) = spread (js_set a k v) rest"

text \<open>
  \<^verbatim>\<open>x || d\<close> for \<open>x\<close> a string, \<^verbatim>\<open>undefined\<close> or \<^verbatim>\<open>null\<close>: the empty string is falsy
  like \<^verbatim>\<open>undefined\<close>.
\<close>

fun or_else :: "string option \<Rightarrow> string \<Rightarrow> string" where
  "or_else None d = d"
| "or_else (Some s) d = (if s = [] then d else s)"

text \<open>\<^verbatim>\<open>!x\<close> for \<open>x\<close> a string or \<^verbatim>\<open>null\<close>.\<close>

fun falsy :: "string option \<Rightarrow> bool" where
  "falsy None = True"
| "falsy (Some s) = (s = [])"

text \<open>
  \<^verbatim>\<open>String.prototype.toLowerCase\<close> on header names, which are ASCII tokens: the letters
  \<open>A\<close> to \<open>Z\<close> move to \<open>a\<close> to \<open>z\<close>, every other character stays.
\<close>

definition lower_char :: "char \<Rightarrow> char" where
  "lower_char c =
     (case map_of (zip ''ABCDEFGHIJKLMNOPQRSTUVWXYZ'' ''abcdefghijklmnopqrstuvwxyz'') c of
        None \<Rightarrow> c
      | Some l \<Rightarrow> l)"

definition toLowerCase :: "string \<Rightarrow> string" where
  "toLowerCase s = map lower_char s"

definition startsWith :: "string \<Rightarrow> string \<Rightarrow> bool" where
  "startsWith s p = (take (length p) s = p)"

subsection \<open>Configuration\<close>

definition ALLOWED_ORIGINS :: "string set" where
  "ALLOWED_ORIGINS =
     {''http://localhost:9003'', ''https://runbookai.net'', ''https://www.runbookai.net''}"

definition HOP_BY_HOP :: "string set" where
  "HOP_BY_HOP =
     {''connection'', ''keep-alive'', ''proxy-authenticate'', ''proxy-authorization'',
      ''te'', ''trailers'', ''transfer-encoding'', ''upgrade'',
      ''host'', ''origin'', ''referer'', ''cookie''}"

definition BROWSER_ONLY :: "string set" where
  "BROWSER_ONLY =
     {''user-agent'', ''accept'', ''accept-language'', ''accept-encoding'',
      ''cache-control'', ''pragma''}"

subsection \<open>Helpers\<close>

definition corsHeaders :: "string \<Rightarrow> string option \<Rightarrow> obj" where
  "corsHeaders origin requestedHeaders =
     [(''Access-Control-Allow-Origin'', origin),
      (''Access-Control-Allow-Methods'', ''GET, POST, PUT, PATCH, DELETE, OPTIONS''),
      (''Access-Control-Allow-Headers'',
         or_else requestedHeaders ''Authorization, Content-Type''),
      (''Access-Control-Max-Age'', ''86400'')]"

subsection \<open>Requests, responses and the platform\<close>

text \<open>
  An inbound request as \<^verbatim>\<open>node:http\<close> delivers it: the method (field \<open>req_method\<close>), the request target,
  the header object and the chunks of the body stream, all received.
\<close>

record request =
  req_method :: string
  url :: string
  headers :: obj
  chunks :: "buffer list"

text \<open>What the handler reads of a \<^verbatim>\<open>URL\<close> object.\<close>

record URL =
  protocol :: string
  href :: string
  searchParams :: "(string \<times> string) list"

text \<open>\<^verbatim>\<open>searchParams.get(name)\<close>: the first value of that name, or \<^verbatim>\<open>null\<close>.\<close>

definition searchParams_get :: "URL \<Rightarrow> string \<Rightarrow> string option" where
  "searchParams_get u name = map_of (searchParams u) name"

text \<open>The arguments of one \<^verbatim>\<open>fetch\<close> call.\<close>

record fetch_init =
  resource :: string
  f_method :: string
  f_headers :: obj
  f_body :: "buffer option"

text \<open>
  What the handler reads of the \<^verbatim>\<open>Response\<close> of \<^verbatim>\<open>fetch\<close>: the status, the header
  list (names lower-cased, as \<^verbatim>\<open>Headers\<close> keeps them) and the result of
  \<^verbatim>\<open>arrayBuffer()\<close>, which is the body or the message of the error it rejects with.
\<close>

record upstream =
  up_status :: nat
  up_headers :: "(string \<times> string) list"
  arrayBuffer :: "string + buffer"

definition Headers_get :: "(string \<times> string) list \<Rightarrow> string \<Rightarrow> string option" where
  "Headers_get hs name = map_of hs (toLowerCase name)"

text \<open>
  The platform: the text of \<^verbatim>\<open>PORT\<close> as the template literal interpolates it,
  \<^verbatim>\<open>new URL(input, base)\<close> (\<open>None\<close> when it throws) and \<^verbatim>\<open>fetch\<close> (\<open>Inl\<close> the
  message of the error it rejects with).
\<close>

record platform =
  PORT :: string
  newURL :: "string \<Rightarrow> string option \<Rightarrow> URL option"
  fetch :: "fetch_init \<Rightarrow> string + upstream"

datatype resbody = NoBody | JSON "(string \<times> string) list" | Bytes buffer

record response =
  status :: nat
  res_headers :: obj
  res_body :: resbody

text \<open>
  The outcome of one run of the handler. \<open>sent = None\<close>: the handler threw before
  any \<^verbatim>\<open>writeHead\<close>, so no response was written.
\<close>

record outcome =
  sent :: "response option"
  upstream_calls :: "fetch_init list"
  console_error :: "string list list"

definition respond :: "nat \<Rightarrow> obj \<Rightarrow> resbody \<Rightarrow> outcome" where
  "respond code hs b =
     \<lparr>sent = Some \<lparr>status = code, res_headers = hs, res_body = b\<rparr>,
      upstream_calls = [], console_error = []\<rparr>"

definition threw :: outcome where
  "threw = \<lparr>sent = None, upstream_calls = [], console_error = []\<rparr>"

subsection \<open>The request handler\<close>

text \<open>\<^verbatim>\<open>readBody\<close>: the chunks of the stream, concatenated.\<close>

definition readBody :: "request \<Rightarrow> buffer" where
  "readBody req = concat (chunks req)"

text \<open>The condition under which the loop of lines 121 to 130 copies a header.\<close>

definition copied :: "string \<Rightarrow> bool" where
  "copied key =
     (let lower = toLowerCase key
      in lower \<notin> HOP_BY_HOP \<and> lower \<notin> BROWSER_ONLY \<and> \<not> startsWith lower ''sec-'')"

fun forward_loop :: "obj \<Rightarrow> obj \<Rightarrow> obj" where
  "forward_loop [] forwardHeaders = forwardHeaders"
| "forward_loop ((key, val) # rest) forwardHeaders =
     (if copied key then forward_loop rest (js_set forwardHeaders key val)
      else forward_loop rest forwardHeaders)"

definition forwardHeaders :: "obj \<Rightarrow> obj" where
  "forwardHeaders hs = js_set (forward_loop hs []) ''user-agent'' ''runbook-ai-proxy/1.0''"

text \<open>
  Lines 66 to 108: preflight, origin check and target resolution. Each early
  \<^verbatim>\<open>return\<close> is an \<open>Inl\<close>; \<open>Inr (origin, parsedTarget)\<close> goes on to the forwarding
  stage.
\<close>

definition validate :: "platform \<Rightarrow> request \<Rightarrow> outcome + (string \<times> URL)" where
  "validate env req =
     (let origin = or_else (js_get (headers req) ''origin'') ''''
      in if req_method req = ''OPTIONS'' then
           (if origin \<in> ALLOWED_ORIGINS then
              (let requestedHeaders = js_get (headers req) ''access-control-request-headers''
               in Inl (respond 204 (corsHeaders origin requestedHeaders) NoBody))
            else Inl (respond 403 [] NoBody))
         else if origin \<notin> ALLOWED_ORIGINS then
           Inl (respond 403 [(''Content-Type'', ''application/json'')]
                  (JSON [(''error'', ''Origin not allowed'')]))
         else
           (case newURL env (or_else (Some (url req)) ''/'')
                   (Some (''http://localhost:'' @ PORT env)) of
              None \<Rightarrow> Inl threw
            | Some reqUrl \<Rightarrow>
                (let targetUrl = searchParams_get reqUrl ''url''
                 in if falsy targetUrl then
                      Inl (respond 400
                             (spread [(''Content-Type'', ''application/json'')]
                                (corsHeaders origin None))
                             (JSON [(''error'', ''Missing ?url= parameter'')]))
                    else
                      (case newURL env (the targetUrl) None of
                         None \<Rightarrow>
                           Inl (respond 400
                                  (spread [(''Content-Type'', ''application/json'')]
                                     (corsHeaders origin None))
                                  (JSON [(''error'', ''Invalid target URL'')]))
                       | Some parsedTarget \<Rightarrow>
                           if protocol parsedTarget \<noteq> ''http:''
                              \<and> protocol parsedTarget \<noteq> ''https:''
                           then
                             Inl (respond 400
                                    (spread [(''Content-Type'', ''application/json'')]
                                       (corsHeaders origin None))
                                    (JSON [(''error'', ''Invalid target URL'')]))
                           else Inr (origin, parsedTarget)))))"

text \<open>
  Lines 110 to 156: read the body, sanitise the headers, call the upstream and relay.
  \<open>fetch_args\<close> is the call \<^verbatim>\<open>fetch(parsedTarget.toString(), {method, headers, body})\<close>.
\<close>

definition fetch_args :: "request \<Rightarrow> URL \<Rightarrow> fetch_init" where
  "fetch_args req parsedTarget =
     (let body = readBody req
      in \<lparr>resource = href parsedTarget,
          f_method = req_method req,
          f_headers = forwardHeaders (headers req),
          f_body = (if length body > 0 then Some body else None)\<rparr>)"

definition forward :: "platform \<Rightarrow> request \<Rightarrow> string \<Rightarrow> URL \<Rightarrow> outcome" where
  "forward env req origin parsedTarget =
     (let init = fetch_args req parsedTarget;
          catch = (\<lambda>message.
                  \<lparr>sent = Some \<lparr>status = 502,
                                res_headers = spread [(''Content-Type'', ''application/json'')]
                                                (corsHeaders origin None),
                                res_body = JSON [(''error'', ''Upstream error''),
                                                 (''message'', message)]\<rparr>,
                   upstream_calls = [init],
                   console_error = [[''[proxy] upstream error:'', message]]\<rparr>)
      in case fetch env init of
           Inl message \<Rightarrow> catch message
         | Inr upstream \<Rightarrow>
             (case arrayBuffer upstream of
                Inl message \<Rightarrow> catch message
              | Inr respBody \<Rightarrow>
                  (let contentType =
                         or_else (Headers_get (up_headers upstream) ''content-type'')
                           ''application/json''
                   in \<lparr>sent = Some \<lparr>status = up_status upstream,
                                    res_headers = spread [(''Content-Type'', contentType)]
                                                    (corsHeaders origin None),
                                    res_body = Bytes respBody\<rparr>,
                       upstream_calls = [init],
                       console_error = []\<rparr>)))"

definition handler :: "platform \<Rightarrow> request \<Rightarrow> outcome" where
  "handler env req =
     (case validate env req of
        Inl out \<Rightarrow> out
      | Inr (origin, parsedTarget) \<Rightarrow> forward env req origin parsedTarget)"

subsection \<open>A sample platform\<close>

text \<open>
  Concrete inputs for the evaluations below. \<open>sample_urls\<close> lists what
  \<^verbatim>\<open>new URL(input, base)\<close> returns on a few inputs; on every other input, among them
  \<^verbatim>\<open>not-a-url\<close> and the empty string without a base, it throws. The sample upstream
  answers on two paths of one host and is unreachable elsewhere.
\<close>

definition sample_base :: "string option" where
  "sample_base = Some ''http://localhost:8082''"

definition proxy_url :: "string \<Rightarrow> (string \<times> string) list \<Rightarrow> URL" where
  "proxy_url query params =
     \<lparr>protocol = ''http:'', href = ''http://localhost:8082/proxy'' @ query,
      searchParams = params\<rparr>"

definition target_url :: "string \<Rightarrow> string \<Rightarrow> URL" where
  "target_url scheme rest = \<lparr>protocol = scheme, href = scheme @ rest, searchParams = []\<rparr>"

definition sample_urls :: "((string \<times> string option) \<times> URL) list" where
  "sample_urls =
     [((''/proxy'', sample_base), proxy_url '''' []),
      ((''/proxy?url='', sample_base), proxy_url ''?url='' [(''url'', '''')]),
      ((''/proxy?url=not-a-url'', sample_base),
         proxy_url ''?url=not-a-url'' [(''url'', ''not-a-url'')]),
      ((''/proxy?url=ftp://host/path'', sample_base),
         proxy_url ''?url=ftp://host/path'' [(''url'', ''ftp://host/path'')]),
      ((''/proxy?url=https://api.test/v1'', sample_base),
         proxy_url ''?url=https://api.test/v1'' [(''url'', ''https://api.test/v1'')]),
      ((''/proxy?url=https://api.test/bare'', sample_base),
         proxy_url ''?url=https://api.test/bare'' [(''url'', ''https://api.test/bare'')]),
      ((''/proxy?url=https://down.test/'', sample_base),
         proxy_url ''?url=https://down.test/'' [(''url'', ''https://down.test/'')]),
      ((''ftp://host/path'', None), target_url ''ftp:'' ''//host/path''),
      ((''https://api.test/v1'', None), target_url ''https:'' ''//api.test/v1''),
      ((''https://api.test/bare'', None), target_url ''https:'' ''//api.test/bare''),
      ((''https://down.test/'', None), target_url ''https:'' ''//down.test/'')]"

definition upstream_v1 :: upstream where
  "upstream_v1 =
     \<lparr>up_status = 201,
      up_headers = [(''content-type'', ''text/plain''), (''set-cookie'', ''sid=1'')],
      arrayBuffer = Inr [104, 105]\<rparr>"

definition upstream_bare :: upstream where
  "upstream_bare =
     \<lparr>up_status = 200, up_headers = [(''content-type'', '''')], arrayBuffer = Inr [123, 125]\<rparr>"

definition sample_fetch :: "fetch_init \<Rightarrow> string + upstream" where
  "sample_fetch init =
     (if resource init = ''https://api.test/v1'' then Inr upstream_v1
      else if resource init = ''https://api.test/bare'' then Inr upstream_bare
      else Inl ''fetch failed'')"

definition sample_platform :: platform where
  "sample_platform =
     \<lparr>PORT = ''8082'',
      newURL = (\<lambda>input base. map_of sample_urls (input, base)),
      fetch = sample_fetch\<rparr>"

definition sample_request :: "string \<Rightarrow> string \<Rightarrow> obj \<Rightarrow> buffer list \<Rightarrow> request" where
  "sample_request m u hs cs = \<lparr>req_method = m, url = u, headers = hs, chunks = cs\<rparr>"

text \<open>A caller outside the allowlist.\<close>

definition req_foreign :: request where
  "req_foreign =
     sample_request ''POST'' ''/proxy?url=https://api.test/v1''
       [(''origin'', ''https://evil.test''), (''content-type'', ''application/json'')]
       [[1, 2]]"

text \<open>Preflights of an allowlisted caller: naming headers, and with an empty list.\<close>

definition req_preflight :: request where
  "req_preflight =
     sample_request ''OPTIONS'' ''/proxy?url=https://api.test/v1''
       [(''origin'', ''https://runbookai.net''),
        (''access-control-request-headers'', ''authorization,x-audit'')]
       []"

definition req_preflight_empty :: request where
  "req_preflight_empty =
     sample_request ''OPTIONS'' ''/proxy?url=https://api.test/v1''
       [(''origin'', ''https://runbookai.net''),
        (''access-control-request-headers'', '''')]
       []"

text \<open>Requests of an allowlisted caller.\<close>

definition req_empty_url :: request where
  "req_empty_url =
     sample_request ''GET'' ''/proxy?url='' [(''origin'', ''https://runbookai.net'')] []"

definition req_ftp :: request where
  "req_ftp =
     sample_request ''GET'' ''/proxy?url=ftp://host/path''
       [(''origin'', ''https://runbookai.net'')] []"

definition req_post :: request where
  "req_post =
     sample_request ''POST'' ''/proxy?url=https://api.test/v1''
       [(''host'', ''localhost:8082''),
        (''origin'', ''https://www.runbookai.net''),
        (''cookie'', ''session=1''),
        (''authorization'', ''Bot token''),
        (''content-type'', ''application/json''),
        (''sec-fetch-mode'', ''cors''),
        (''user-agent'', ''Mozilla/5.0'')]
       [[123], [125]]"

definition req_bare :: request where
  "req_bare =
     sample_request ''GET'' ''/proxy?url=https://api.test/bare''
       [(''origin'', ''https://runbookai.net'')] []"

definition req_down :: request where
  "req_down =
     sample_request ''GET'' ''/proxy?url=https://down.test/''
       [(''origin'', ''http://localhost:9003'')] []"

definition req_missing :: request where
  "req_missing =
     sample_request ''GET'' ''/proxy'' [(''origin'', ''https://runbookai.net'')] []"

definition req_not_a_url :: request where
  "req_not_a_url =
     sample_request ''GET'' ''/proxy?url=not-a-url''
       [(''origin'', ''https://runbookai.net'')] []"

text \<open>The request \<open>req_post\<close> with other values in the headers that are not copied.\<close>

definition req_post_other :: request where
  "req_post_other =
     sample_request ''POST'' ''/proxy?url=https://api.test/v1''
       [(''host'', ''proxy.runbookai.net''),
        (''origin'', ''https://runbookai.net''),
        (''cookie'', ''session=2; theme=dark''),
        (''authorization'', ''Bot token''),
        (''content-type'', ''application/json''),
        (''sec-fetch-mode'', ''no-cors''),
        (''user-agent'', ''curl/8.0'')]
       [[123], [125]]"

text \<open>A request with the \<open>Accept\<close> family of headers, \<open>Cache-Control\<close> and \<open>Pragma\<close>.\<close>

definition req_accept :: request where
  "req_accept =
     sample_request ''GET'' ''/proxy?url=https://api.test/v1''
       [(''origin'', ''https://runbookai.net''),
        (''accept'', ''*/*''),
        (''accept-language'', ''en-US''),
        (''accept-encoding'', ''gzip''),
        (''accept-charset'', ''utf-8''),
        (''cache-control'', ''no-cache''),
        (''pragma'', ''no-cache'')]
       []"

text \<open>A preflight of a caller outside the allowlist.\<close>

definition req_preflight_foreign :: request where
  "req_preflight_foreign =
     sample_request ''OPTIONS'' ''/proxy?url=https://api.test/v1''
       [(''origin'', ''https://evil.test''),
        (''access-control-request-headers'', ''authorization'')]
       []"

subsection \<open>Properties stated about responses\<close>

text \<open>A header object carries no CORS header: none of the names \<open>corsHeaders\<close> sets.\<close>

definition cors_free :: "obj \<Rightarrow> bool" where
  "cors_free hs = (\<forall>k \<in> fst ` set (corsHeaders [] None). js_get hs k = None)"

section \<open>Verification\<close>

subsection \<open>Objects and the allowlist\<close>


lemma spread_cors:
  "spread [(''Content-Type'', ct)] (corsHeaders origin rq) =
   (''Content-Type'', ct) # corsHeaders origin rq"
  by (simp add: corsHeaders_def)

lemma empty_not_allowed: "[] \<notin> ALLOWED_ORIGINS"
  by (simp add: ALLOWED_ORIGINS_def)

lemma star_not_allowed: "''*'' \<notin> ALLOWED_ORIGINS"
  by (simp add: ALLOWED_ORIGINS_def)

lemma origin_allowed_iff:
  "or_else (js_get hs ''origin'') [] \<in> ALLOWED_ORIGINS \<longleftrightarrow>
   (\<exists>origin. js_get hs ''origin'' = Some origin \<and> origin \<in> ALLOWED_ORIGINS)"
  using empty_not_allowed by (cases "js_get hs ''origin''") auto

lemma origin_allowed_eq:
  "js_get hs ''origin'' = Some origin \<Longrightarrow> origin \<in> ALLOWED_ORIGINS \<Longrightarrow>
   or_else (js_get hs ''origin'') [] = origin"
  using empty_not_allowed by auto

lemma or_else_allowedD:
  "or_else x [] \<in> ALLOWED_ORIGINS \<Longrightarrow> x = Some (or_else x [])"
  using empty_not_allowed by (cases x) (auto split: if_splits)

lemma or_else_cases:
  "or_else x d = (case x of None \<Rightarrow> d | Some s \<Rightarrow> if s = [] then d else s)"
  by (cases x) simp_all

subsection \<open>The header loop\<close>




text \<open>The loop reads the value of a header only when it copies the header.\<close>

lemma forward_loop_rel:
  "list_all2 (\<lambda>(k1, v1) (k2, v2). k1 = k2 \<and> (v1 = v2 \<or> \<not> copied k1)) hs1 hs2 \<Longrightarrow>
   forward_loop hs1 acc = forward_loop hs2 acc"
proof (induction hs1 hs2 arbitrary: acc rule: list_all2_induct)
  case Nil
  then show ?case by simp
next
  case (Cons p1 hs1 p2 hs2)
  then show ?case by (cases p1; cases p2) auto
qed

subsection \<open>The stages of the handler\<close>

lemma validate_Inl_calls: "validate env req = Inl out \<Longrightarrow> upstream_calls out = []"
  by (auto simp: validate_def respond_def threw_def Let_def split: if_splits option.splits)

lemma validate_InrD:
  assumes "validate env req = Inr (origin, tgt)"
  shows "req_method req \<noteq> ''OPTIONS'' \<and> js_get (headers req) ''origin'' = Some origin \<and>
         origin \<in> ALLOWED_ORIGINS"
proof -
  let ?o = "or_else (js_get (headers req) ''origin'') []"
  have m: "req_method req \<noteq> ''OPTIONS''"
    using assms by (auto simp: validate_def Let_def split: if_splits)
  have a: "?o \<in> ALLOWED_ORIGINS"
    using assms m by (auto simp: validate_def Let_def split: if_splits)
  have "origin = ?o"
    using assms m a by (simp add: validate_def Let_def split: if_splits option.splits)
  then show ?thesis using m a or_else_allowedD [OF a] by simp
qed

lemma validate_InrI:
  assumes "req_method req \<noteq> ''OPTIONS''"
      and "js_get (headers req) ''origin'' = Some origin" "origin \<in> ALLOWED_ORIGINS"
      and "newURL env (or_else (Some (url req)) ''/'') (Some (''http://localhost:'' @ PORT env))
             = Some reqUrl"
      and "searchParams_get reqUrl ''url'' = Some t" "t \<noteq> []"
      and "newURL env t None = Some tgt"
      and "protocol tgt = ''http:'' \<or> protocol tgt = ''https:''"
  shows "validate env req = Inr (origin, tgt)"
  using assms(1,3-) origin_allowed_eq [OF assms(2,3)]
  by (simp add: validate_def del: or_else.simps)

lemma handler_dispatched:
  "validate env req = Inr (origin, tgt) \<Longrightarrow> handler env req = forward env req origin tgt"
  by (simp add: handler_def)

lemma forward_calls: "upstream_calls (forward env req origin tgt) = [fetch_args req tgt]"
  by (simp add: forward_def Let_def split: sum.splits)


lemma forward_fetch_failed:
  "fetch env (fetch_args req tgt) = Inl message \<Longrightarrow>
   forward env req origin tgt =
     \<lparr>sent = Some \<lparr>status = 502,
                   res_headers = (''Content-Type'', ''application/json'') # corsHeaders origin None,
                   res_body = JSON [(''error'', ''Upstream error''), (''message'', message)]\<rparr>,
      upstream_calls = [fetch_args req tgt],
      console_error = [[''[proxy] upstream error:'', message]]\<rparr>"
  by (simp add: forward_def Let_def spread_cors)

lemma forward_body_failed:
  "fetch env (fetch_args req tgt) = Inr up \<Longrightarrow> arrayBuffer up = Inl message \<Longrightarrow>
   forward env req origin tgt =
     \<lparr>sent = Some \<lparr>status = 502,
                   res_headers = (''Content-Type'', ''application/json'') # corsHeaders origin None,
                   res_body = JSON [(''error'', ''Upstream error''), (''message'', message)]\<rparr>,
      upstream_calls = [fetch_args req tgt],
      console_error = [[''[proxy] upstream error:'', message]]\<rparr>"
  by (simp add: forward_def Let_def spread_cors)

lemma forward_relayed:
  "fetch env (fetch_args req tgt) = Inr up \<Longrightarrow> arrayBuffer up = Inr respBody \<Longrightarrow>
   forward env req origin tgt =
     \<lparr>sent = Some \<lparr>status = up_status up,
                   res_headers =
                     (''Content-Type'',
                      or_else (Headers_get (up_headers up) ''content-type'') ''application/json'')
                     # corsHeaders origin None,
                   res_body = Bytes respBody\<rparr>,
      upstream_calls = [fetch_args req tgt],
      console_error = []\<rparr>"
  by (simp add: forward_def Let_def spread_cors)

lemma forward_sent:
  assumes "sent (forward env req origin tgt) = Some r"
  shows "\<exists>ct. res_headers r = (''Content-Type'', ct) # corsHeaders origin None \<and>
           (ct = ''application/json'' \<or>
            (\<exists>up. fetch env (fetch_args req tgt) = Inr up \<and>
                  Headers_get (up_headers up) ''content-type'' = Some ct))"
proof (cases "fetch env (fetch_args req tgt)")
  case (Inl message)
  show ?thesis using assms forward_fetch_failed [OF Inl, of origin] by auto
next
  case (Inr up)
  show ?thesis
  proof (cases "arrayBuffer up")
    case (Inl message)
    show ?thesis using assms forward_body_failed [OF Inr Inl, of origin] by auto
  next
    case body: (Inr respBody)
    have "res_headers r =
            (''Content-Type'',
             or_else (Headers_get (up_headers up) ''content-type'') ''application/json'')
            # corsHeaders origin None"
      using assms forward_relayed [OF Inr body, of origin] by auto
    then show ?thesis using Inr
      by (cases "Headers_get (up_headers up) ''content-type''") auto
  qed
qed

subsection \<open>The first stage, case by case\<close>

lemma handler_Inl: "validate env req = Inl out \<Longrightarrow> handler env req = out"
  by (simp add: handler_def)

lemma validate_preflight_allowed:
  assumes "req_method req = ''OPTIONS''"
      and "js_get (headers req) ''origin'' = Some origin" "origin \<in> ALLOWED_ORIGINS"
  shows "validate env req =
           Inl (respond 204
                  (corsHeaders origin (js_get (headers req) ''access-control-request-headers''))
                  NoBody)"
  using assms(1,3) origin_allowed_eq [OF assms(2,3)]
  by (simp add: validate_def del: or_else.simps)

lemma validate_rejected:
  assumes "\<forall>origin. js_get (headers req) ''origin'' = Some origin \<longrightarrow> origin \<notin> ALLOWED_ORIGINS"
  shows "validate env req =
           Inl (if req_method req = ''OPTIONS'' then respond 403 [] NoBody
                else respond 403 [(''Content-Type'', ''application/json'')]
                       (JSON [(''error'', ''Origin not allowed'')]))"
proof -
  have "or_else (js_get (headers req) ''origin'') [] \<notin> ALLOWED_ORIGINS"
    using assms by (simp add: origin_allowed_iff)
  then show ?thesis by (simp add: validate_def del: or_else.simps)
qed

lemma validate_missing:
  assumes "req_method req \<noteq> ''OPTIONS''"
      and "js_get (headers req) ''origin'' = Some origin" "origin \<in> ALLOWED_ORIGINS"
      and "newURL env (or_else (Some (url req)) ''/'') (Some (''http://localhost:'' @ PORT env))
             = Some reqUrl"
      and "falsy (searchParams_get reqUrl ''url'')"
  shows "validate env req =
           Inl (respond 400 ((''Content-Type'', ''application/json'') # corsHeaders origin None)
                  (JSON [(''error'', ''Missing ?url= parameter'')]))"
  using assms(1,3-) origin_allowed_eq [OF assms(2,3)]
  by (simp add: validate_def spread_cors del: or_else.simps)

lemma validate_invalid:
  assumes "req_method req \<noteq> ''OPTIONS''"
      and "js_get (headers req) ''origin'' = Some origin" "origin \<in> ALLOWED_ORIGINS"
      and "newURL env (or_else (Some (url req)) ''/'') (Some (''http://localhost:'' @ PORT env))
             = Some reqUrl"
      and "searchParams_get reqUrl ''url'' = Some t" "t \<noteq> []"
      and "newURL env t None = None \<or>
           (\<exists>u. newURL env t None = Some u \<and> protocol u \<noteq> ''http:'' \<and> protocol u \<noteq> ''https:'')"
  shows "validate env req =
           Inl (respond 400 ((''Content-Type'', ''application/json'') # corsHeaders origin None)
                  (JSON [(''error'', ''Invalid target URL'')]))"
  using assms(1,3-) origin_allowed_eq [OF assms(2,3)]
  by (auto simp: validate_def spread_cors simp del: or_else.simps)

text \<open>What a run that reaches the forwarding stage has passed.\<close>

lemma validate_Inr_target:
  assumes "validate env req = Inr (origin, tgt)"
  shows "\<exists>reqUrl t.
           newURL env (or_else (Some (url req)) ''/'') (Some (''http://localhost:'' @ PORT env))
             = Some reqUrl \<and>
           searchParams_get reqUrl ''url'' = Some t \<and> t \<noteq> [] \<and>
           newURL env t None = Some tgt \<and>
           (protocol tgt = ''http:'' \<or> protocol tgt = ''https:'')"
proof -
  let ?n = "newURL env (or_else (Some (url req)) ''/'') (Some (''http://localhost:'' @ PORT env))"
  have m: "req_method req \<noteq> ''OPTIONS''"
    and o: "js_get (headers req) ''origin'' = Some origin" "origin \<in> ALLOWED_ORIGINS"
    using validate_InrD [OF assms] by simp_all
  obtain reqUrl where r: "?n = Some reqUrl"
    using assms m o(2) origin_allowed_eq [OF o]
    by (cases ?n) (simp_all add: validate_def del: or_else.simps)
  obtain t where t: "searchParams_get reqUrl ''url'' = Some t" "t \<noteq> []"
    using assms validate_missing [OF m o r]
    by (cases "searchParams_get reqUrl ''url''") auto
  obtain u where u: "newURL env t None = Some u" "protocol u = ''http:'' \<or> protocol u = ''https:''"
    using assms validate_invalid [OF m o r t] by (cases "newURL env t None") auto
  have "u = tgt" using assms validate_InrI [OF m o r t u] by simp
  then show ?thesis using r t u by blast
qed

lemma validate_same_target:
  assumes "validate env req1 = Inr (origin1, tgt)"
      and "req_method req2 = req_method req1" "url req2 = url req1"
      and "js_get (headers req2) ''origin'' = Some origin2" "origin2 \<in> ALLOWED_ORIGINS"
  shows "validate env req2 = Inr (origin2, tgt)"
proof -
  have m: "req_method req2 \<noteq> ''OPTIONS''"
    using validate_InrD [OF assms(1)] assms(2) by simp
  obtain reqUrl t where
      "newURL env (or_else (Some (url req2)) ''/'') (Some (''http://localhost:'' @ PORT env))
             = Some reqUrl"
      "searchParams_get reqUrl ''url'' = Some t" "t \<noteq> []"
      "newURL env t None = Some tgt"
      "protocol tgt = ''http:'' \<or> protocol tgt = ''https:''"
    using validate_Inr_target [OF assms(1)] assms(3) by auto
  then show ?thesis by (rule validate_InrI [OF m assms(4,5)])
qed

text \<open>
  Every response that the first stage writes is a 403 without CORS headers, to a
  caller outside the allowlist, or carries the CORS headers of an allowlisted caller.
\<close>

lemma validate_Inl_sent:
  assumes "validate env req = Inl out" "sent out = Some r"
  shows "(cors_free (res_headers r) \<and>
          (\<forall>origin. js_get (headers req) ''origin'' = Some origin \<longrightarrow> origin \<notin> ALLOWED_ORIGINS)) \<or>
         (\<exists>origin. js_get (headers req) ''origin'' = Some origin \<and> origin \<in> ALLOWED_ORIGINS \<and>
            (if req_method req = ''OPTIONS''
             then res_headers r =
                    corsHeaders origin (js_get (headers req) ''access-control-request-headers'')
             else res_headers r =
                    (''Content-Type'', ''application/json'') # corsHeaders origin None))"
proof (cases "\<exists>origin. js_get (headers req) ''origin'' = Some origin \<and> origin \<in> ALLOWED_ORIGINS")
  case False
  then have no: "\<forall>origin. js_get (headers req) ''origin'' = Some origin \<longrightarrow> origin \<notin> ALLOWED_ORIGINS"
    by blast
  show ?thesis
    using assms no validate_rejected [OF no, of env]
    by (auto simp: respond_def cors_free_def js_get_def corsHeaders_def split: if_splits)
next
  case True
  then obtain origin where o: "js_get (headers req) ''origin'' = Some origin"
    "origin \<in> ALLOWED_ORIGINS" by blast
  show ?thesis
  proof (cases "req_method req = ''OPTIONS''")
    case opt: True
    show ?thesis
      using assms o opt validate_preflight_allowed [OF opt o, of env] by (auto simp: respond_def)
  next
    case nopt: False
    let ?n = "newURL env (or_else (Some (url req)) ''/'') (Some (''http://localhost:'' @ PORT env))"
    show ?thesis
    proof (cases ?n)
      case None
      then have "validate env req = Inl threw"
        using nopt o origin_allowed_eq [OF o] by (simp add: validate_def del: or_else.simps)
      then show ?thesis using assms by (simp add: threw_def)
    next
      case (Some reqUrl)
      show ?thesis
      proof (cases "falsy (searchParams_get reqUrl ''url'')")
        case f: True
        show ?thesis
          using assms o nopt validate_missing [OF nopt o Some f] by (auto simp: respond_def)
      next
        case nf: False
        then obtain t where t: "searchParams_get reqUrl ''url'' = Some t" "t \<noteq> []"
          by (cases "searchParams_get reqUrl ''url''") auto
        have "newURL env t None = None \<or>
           (\<exists>u. newURL env t None = Some u \<and> protocol u \<noteq> ''http:'' \<and> protocol u \<noteq> ''https:'')"
          using validate_InrI [OF nopt o Some t] assms(1)
          by (cases "newURL env t None") auto
        then show ?thesis
          using assms o nopt validate_invalid [OF nopt o Some t] by (auto simp: respond_def)
      qed
    qed
  qed
qed

lemma cors_origin:
  "js_get (corsHeaders origin rq) ''Access-Control-Allow-Origin'' = Some origin"
  "js_get ((''Content-Type'', ct) # corsHeaders origin rq) ''Access-Control-Allow-Origin''
     = Some origin"
  by (simp_all add: corsHeaders_def js_get_def)

lemma cors_keys:
  "map fst (corsHeaders origin rq) =
     [''Access-Control-Allow-Origin'', ''Access-Control-Allow-Methods'',
      ''Access-Control-Allow-Headers'', ''Access-Control-Max-Age'']"
  by (simp add: corsHeaders_def)

subsection \<open>Runs on the sample platform\<close>

lemmas sample_defs =
  sample_platform_def sample_request_def sample_urls_def sample_base_def sample_fetch_def
  proxy_url_def target_url_def upstream_v1_def upstream_bare_def

lemmas run_defs =
  handler_def validate_def forward_def fetch_args_def readBody_def forwardHeaders_def
  copied_def toLowerCase_def lower_char_def startsWith_def HOP_BY_HOP_def BROWSER_ONLY_def
  ALLOWED_ORIGINS_def corsHeaders_def respond_def threw_def js_get_def searchParams_get_def
  Headers_get_def Let_def

lemma allowed_samples:
  "''https://runbookai.net'' \<in> ALLOWED_ORIGINS"
  "''https://www.runbookai.net'' \<in> ALLOWED_ORIGINS"
  "''http://localhost:9003'' \<in> ALLOWED_ORIGINS"
  "''https://evil.test'' \<notin> ALLOWED_ORIGINS"
  by (simp_all add: ALLOWED_ORIGINS_def)

lemma newURL_sample:
  "newURL sample_platform input base = map_of sample_urls (input, base)"
  "PORT sample_platform = ''8082''"
  by (simp_all add: sample_platform_def)

lemma validate_req_post:
  "validate sample_platform req_post =
     Inr (''https://www.runbookai.net'', target_url ''https:'' ''//api.test/v1'')"
  by (simp add: req_post_def sample_defs validate_def ALLOWED_ORIGINS_def js_get_def
      searchParams_get_def)

lemma validate_req_bare:
  "validate sample_platform req_bare =
     Inr (''https://runbookai.net'', target_url ''https:'' ''//api.test/bare'')"
  by (simp add: req_bare_def sample_defs validate_def ALLOWED_ORIGINS_def js_get_def
      searchParams_get_def)

lemma validate_req_down:
  "validate sample_platform req_down =
     Inr (''http://localhost:9003'', target_url ''https:'' ''//down.test/'')"
  by (simp add: req_down_def sample_defs validate_def ALLOWED_ORIGINS_def js_get_def
      searchParams_get_def)

lemma fetch_samples:
  "fetch sample_platform (fetch_args req (target_url ''https:'' ''//api.test/v1''))
     = Inr upstream_v1"
  "fetch sample_platform (fetch_args req (target_url ''https:'' ''//api.test/bare''))
     = Inr upstream_bare"
  "fetch sample_platform (fetch_args req (target_url ''https:'' ''//down.test/''))
     = Inl ''fetch failed''"
  by (simp_all add: sample_platform_def sample_fetch_def fetch_args_def target_url_def Let_def)

subsection \<open>Origin authorisation\<close>

text \<open>
  Claim C1. A request whose \<open>Origin\<close> header is not a member of the allowlist, or that
  has no \<open>Origin\<close> header, is answered with status 403 and without CORS headers,
  whatever its method and path; when the method is not \<open>OPTIONS\<close>, the body is the JSON
  object \<open>{"error":"Origin not allowed"}\<close> and the only header is the content type.
\<close>

theorem C1_origin_rejected:
  assumes "\<forall>origin. js_get (headers req) ''origin'' = Some origin \<longrightarrow> origin \<notin> ALLOWED_ORIGINS"
  shows "\<exists>r. sent (handler env req) = Some r \<and> status r = 403 \<and> cors_free (res_headers r) \<and>
           (req_method req \<noteq> ''OPTIONS'' \<longrightarrow>
              res_body r = JSON [(''error'', ''Origin not allowed'')] \<and>
              res_headers r = [(''Content-Type'', ''application/json'')])"
  using handler_Inl [OF validate_rejected [OF assms], of env]
  by (simp add: respond_def cors_free_def js_get_def corsHeaders_def)

theorem C1_origin_rejected_witness:
  "js_get (headers req_foreign) ''origin'' = Some ''https://evil.test'' \<and>
   ''https://evil.test'' \<notin> ALLOWED_ORIGINS \<and>
   sent (handler sample_platform req_foreign) =
     Some \<lparr>status = 403, res_headers = [(''Content-Type'', ''application/json'')],
           res_body = JSON [(''error'', ''Origin not allowed'')]\<rparr>"
proof -
  have o: "js_get (headers req_foreign) ''origin'' = Some ''https://evil.test''"
    and m: "req_method req_foreign \<noteq> ''OPTIONS''"
    by (simp_all add: req_foreign_def sample_request_def js_get_def)
  have "\<forall>origin. js_get (headers req_foreign) ''origin'' = Some origin
          \<longrightarrow> origin \<notin> ALLOWED_ORIGINS"
    using o allowed_samples(4) by simp
  from C1_origin_rejected [OF this, of sample_platform] m
  obtain r where "sent (handler sample_platform req_foreign) = Some r" "status r = 403"
     "res_body r = JSON [(''error'', ''Origin not allowed'')]"
     "res_headers r = [(''Content-Type'', ''application/json'')]" by blast
  then show ?thesis using o allowed_samples(4) by (cases r) simp
qed

subsection \<open>Header sanitisation\<close>



text \<open>
  Claim C3. The claim is that every inbound header whose name begins with \<open>accept\<close> is
  absent from the forwarded headers. The code lists \<open>accept\<close>, \<open>accept-language\<close> and
  \<open>accept-encoding\<close> only, although its comment announces \<open>accept-*\<close>: on the sample
  request, which carries those three, \<open>accept-charset\<close>, \<open>cache-control\<close> and \<open>pragma\<close>,
  the upstream call has the headers \<open>accept-charset\<close> and the forced \<open>user-agent\<close>.
\<close>

theorem C3_accept_charset_forwarded:
  "startsWith (toLowerCase ''accept-charset'') ''accept'' \<and>
   js_get (headers req_accept) ''accept-charset'' = Some ''utf-8'' \<and>
   map f_headers (upstream_calls (handler sample_platform req_accept)) =
     [[(''accept-charset'', ''utf-8''), (''user-agent'', ''runbook-ai-proxy/1.0'')]]"
  by (simp add: req_accept_def sample_defs run_defs)

subsection \<open>Preflight\<close>

text \<open>
  Claim C4, amended. An \<open>OPTIONS\<close> request whose \<open>Origin\<close> is in the allowlist is
  answered 204 without body, with exactly the four CORS headers:
  \<open>Access-Control-Allow-Origin\<close> is the request's \<open>Origin\<close>,
  \<open>Access-Control-Allow-Headers\<close> is the value of \<open>Access-Control-Request-Headers\<close>
  when that header is present and not empty, and \<open>Authorization, Content-Type\<close> when it
  is absent or empty; the methods and the max age are the fixed strings. An \<open>OPTIONS\<close>
  request whose \<open>Origin\<close> is absent or outside the allowlist is answered 403 without
  body and without any header.
\<close>

theorem C4_preflight:
  assumes "req_method req = ''OPTIONS''"
  shows "(\<forall>origin. js_get (headers req) ''origin'' = Some origin \<and> origin \<in> ALLOWED_ORIGINS \<longrightarrow>
            sent (handler env req) =
              Some \<lparr>status = 204,
                    res_headers =
                      [(''Access-Control-Allow-Origin'', origin),
                       (''Access-Control-Allow-Methods'', ''GET, POST, PUT, PATCH, DELETE, OPTIONS''),
                       (''Access-Control-Allow-Headers'',
                          (case js_get (headers req) ''access-control-request-headers'' of
                             None \<Rightarrow> ''Authorization, Content-Type''
                           | Some requested \<Rightarrow>
                               if requested = [] then ''Authorization, Content-Type''
                               else requested)),
                       (''Access-Control-Max-Age'', ''86400'')],
                    res_body = NoBody\<rparr>) \<and>
         ((\<forall>origin. js_get (headers req) ''origin'' = Some origin \<longrightarrow> origin \<notin> ALLOWED_ORIGINS) \<longrightarrow>
            sent (handler env req) = Some \<lparr>status = 403, res_headers = [], res_body = NoBody\<rparr>)"
    (is "?allowed \<and> ?rejected")
proof
  show ?allowed
    using handler_Inl [OF validate_preflight_allowed [OF assms], of _ env]
    by (simp add: respond_def corsHeaders_def or_else_cases)
  show ?rejected
    using assms handler_Inl [OF validate_rejected, of req env] by (simp add: respond_def)
qed

theorem C4_preflight_witness:
  "req_method req_preflight = ''OPTIONS'' \<and>
   js_get (headers req_preflight) ''origin'' = Some ''https://runbookai.net'' \<and>
   ''https://runbookai.net'' \<in> ALLOWED_ORIGINS \<and>
   js_get (headers req_preflight) ''access-control-request-headers''
     = Some ''authorization,x-audit'' \<and>
   sent (handler sample_platform req_preflight) =
     Some \<lparr>status = 204,
           res_headers =
             [(''Access-Control-Allow-Origin'', ''https://runbookai.net''),
              (''Access-Control-Allow-Methods'', ''GET, POST, PUT, PATCH, DELETE, OPTIONS''),
              (''Access-Control-Allow-Headers'', ''authorization,x-audit''),
              (''Access-Control-Max-Age'', ''86400'')],
           res_body = NoBody\<rparr> \<and>
   req_method req_preflight_foreign = ''OPTIONS'' \<and>
   js_get (headers req_preflight_foreign) ''origin'' = Some ''https://evil.test'' \<and>
   ''https://evil.test'' \<notin> ALLOWED_ORIGINS \<and>
   sent (handler sample_platform req_preflight_foreign) =
     Some \<lparr>status = 403, res_headers = [], res_body = NoBody\<rparr>"
proof -
  have a: "req_method req_preflight = ''OPTIONS''"
       "js_get (headers req_preflight) ''origin'' = Some ''https://runbookai.net''"
       "js_get (headers req_preflight) ''access-control-request-headers''
          = Some ''authorization,x-audit''"
    by (simp_all add: req_preflight_def sample_request_def js_get_def)
  have b: "req_method req_preflight_foreign = ''OPTIONS''"
       "js_get (headers req_preflight_foreign) ''origin'' = Some ''https://evil.test''"
    by (simp_all add: req_preflight_foreign_def sample_request_def js_get_def)
  show ?thesis
    using C4_preflight [OF a(1), of sample_platform] C4_preflight [OF b(1), of sample_platform]
      a b allowed_samples(1,4)
    by simp
qed

text \<open>
  The claim as first stated echoes \<open>Access-Control-Request-Headers\<close> whenever the header
  is present. A preflight whose header is present with the empty value is answered
  with the fallback, not with the empty value.
\<close>

theorem C4_empty_request_headers_counterexample:
  "req_method req_preflight_empty = ''OPTIONS'' \<and>
   js_get (headers req_preflight_empty) ''origin'' = Some ''https://runbookai.net'' \<and>
   ''https://runbookai.net'' \<in> ALLOWED_ORIGINS \<and>
   js_get (headers req_preflight_empty) ''access-control-request-headers'' = Some [] \<and>
   js_get (res_headers (the (sent (handler sample_platform req_preflight_empty))))
     ''Access-Control-Allow-Headers'' = Some ''Authorization, Content-Type''"
  by (simp add: req_preflight_empty_def sample_request_def handler_def validate_def
      ALLOWED_ORIGINS_def corsHeaders_def respond_def js_get_def)

subsection \<open>Target resolution\<close>

text \<open>
  Claim C5, amended. For a request that is not \<open>OPTIONS\<close>, has an allowlisted \<open>Origin\<close>
  and whose own target parses: when the \<open>url\<close> query parameter is missing or empty, the
  response is 400 with the JSON body \<open>{"error":"Missing ?url= parameter"}\<close> and the CORS
  headers; when it is present, not empty, and does not parse as an absolute URL or
  parses with a scheme other than \<open>http:\<close> and \<open>https:\<close>, the response is 400 with the
  JSON body \<open>{"error":"Invalid target URL"}\<close> and the CORS headers; when it is not empty
  and parses with scheme \<open>http:\<close> or \<open>https:\<close>, the handler goes on to the forwarding
  stage and calls the upstream once, at that URL.
\<close>

theorem C5_target_resolution:
  assumes "req_method req \<noteq> ''OPTIONS''"
      and "js_get (headers req) ''origin'' = Some origin" "origin \<in> ALLOWED_ORIGINS"
      and "newURL env (or_else (Some (url req)) ''/'') (Some (''http://localhost:'' @ PORT env))
             = Some reqUrl"
  shows "(searchParams_get reqUrl ''url'' = None \<or> searchParams_get reqUrl ''url'' = Some [] \<longrightarrow>
            handler env req =
              respond 400 ((''Content-Type'', ''application/json'') # corsHeaders origin None)
                (JSON [(''error'', ''Missing ?url= parameter'')])) \<and>
         (\<forall>t. searchParams_get reqUrl ''url'' = Some t \<and> t \<noteq> [] \<longrightarrow>
            (newURL env t None = None \<or>
             (\<exists>u. newURL env t None = Some u \<and> protocol u \<noteq> ''http:'' \<and> protocol u \<noteq> ''https:'')
             \<longrightarrow> handler env req =
                   respond 400 ((''Content-Type'', ''application/json'') # corsHeaders origin None)
                     (JSON [(''error'', ''Invalid target URL'')])) \<and>
            (\<forall>u. newURL env t None = Some u \<and> (protocol u = ''http:'' \<or> protocol u = ''https:'')
               \<longrightarrow> handler env req = forward env req origin u \<and>
                   upstream_calls (handler env req) = [fetch_args req u]))"
    (is "?missing \<and> ?present")
proof
  show ?missing
    using handler_Inl [OF validate_missing [OF assms]] by auto
  show ?present
  proof (intro allI impI conjI)
    fix t assume t: "searchParams_get reqUrl ''url'' = Some t \<and> t \<noteq> []"
    { assume "newURL env t None = None \<or>
            (\<exists>u. newURL env t None = Some u \<and> protocol u \<noteq> ''http:'' \<and> protocol u \<noteq> ''https:'')"
      then show "handler env req =
                   respond 400 ((''Content-Type'', ''application/json'') # corsHeaders origin None)
                     (JSON [(''error'', ''Invalid target URL'')])"
        using handler_Inl [OF validate_invalid [OF assms]] t by blast }
    { fix u
      assume "newURL env t None = Some u \<and> (protocol u = ''http:'' \<or> protocol u = ''https:'')"
      then have h: "handler env req = forward env req origin u"
        using handler_dispatched [OF validate_InrI [OF assms]] t by blast
      then show "handler env req = forward env req origin u" .
      show "upstream_calls (handler env req) = [fetch_args req u]"
        by (simp add: h forward_calls) }
  qed
qed

theorem C5_target_resolution_witness:
  "handler sample_platform req_missing =
     respond 400
       ((''Content-Type'', ''application/json'') # corsHeaders ''https://runbookai.net'' None)
       (JSON [(''error'', ''Missing ?url= parameter'')]) \<and>
   newURL sample_platform ''not-a-url'' None = None \<and>
   handler sample_platform req_not_a_url =
     respond 400
       ((''Content-Type'', ''application/json'') # corsHeaders ''https://runbookai.net'' None)
       (JSON [(''error'', ''Invalid target URL'')]) \<and>
   newURL sample_platform ''ftp://host/path'' None = Some (target_url ''ftp:'' ''//host/path'') \<and>
   handler sample_platform req_ftp =
     respond 400
       ((''Content-Type'', ''application/json'') # corsHeaders ''https://runbookai.net'' None)
       (JSON [(''error'', ''Invalid target URL'')]) \<and>
   upstream_calls (handler sample_platform req_post) =
     [fetch_args req_post (target_url ''https:'' ''//api.test/v1'')]"
proof -
  let ?base = "Some (''http://localhost:'' @ PORT sample_platform)"
  let ?new = "newURL sample_platform"
  have missing: "req_method req_missing \<noteq> ''OPTIONS''"
      "js_get (headers req_missing) ''origin'' = Some ''https://runbookai.net''"
      "?new (or_else (Some (url req_missing)) ''/'') ?base = Some (proxy_url [] [])"
      "searchParams_get (proxy_url [] []) ''url'' = None"
    by (simp_all add: req_missing_def sample_request_def js_get_def newURL_sample
        sample_urls_def sample_base_def searchParams_get_def proxy_url_def)
  have bad: "req_method req_not_a_url \<noteq> ''OPTIONS''"
      "js_get (headers req_not_a_url) ''origin'' = Some ''https://runbookai.net''"
      "?new (or_else (Some (url req_not_a_url)) ''/'') ?base
         = Some (proxy_url ''?url=not-a-url'' [(''url'', ''not-a-url'')])"
      "searchParams_get (proxy_url ''?url=not-a-url'' [(''url'', ''not-a-url'')]) ''url''
         = Some ''not-a-url'' \<and> ''not-a-url'' \<noteq> []"
      "?new ''not-a-url'' None = None"
    by (simp_all add: req_not_a_url_def sample_request_def js_get_def newURL_sample
        sample_urls_def sample_base_def searchParams_get_def proxy_url_def)
  have ftp: "req_method req_ftp \<noteq> ''OPTIONS''"
      "js_get (headers req_ftp) ''origin'' = Some ''https://runbookai.net''"
      "?new (or_else (Some (url req_ftp)) ''/'') ?base
         = Some (proxy_url ''?url=ftp://host/path'' [(''url'', ''ftp://host/path'')])"
      "searchParams_get (proxy_url ''?url=ftp://host/path'' [(''url'', ''ftp://host/path'')])
         ''url'' = Some ''ftp://host/path'' \<and> ''ftp://host/path'' \<noteq> []"
      "?new ''ftp://host/path'' None = Some (target_url ''ftp:'' ''//host/path'') \<and>
       protocol (target_url ''ftp:'' ''//host/path'') \<noteq> ''http:'' \<and>
       protocol (target_url ''ftp:'' ''//host/path'') \<noteq> ''https:''"
    by (simp_all add: req_ftp_def sample_request_def js_get_def newURL_sample
        sample_urls_def sample_base_def searchParams_get_def proxy_url_def target_url_def)
  have post: "req_method req_post \<noteq> ''OPTIONS''"
      "js_get (headers req_post) ''origin'' = Some ''https://www.runbookai.net''"
      "?new (or_else (Some (url req_post)) ''/'') ?base
         = Some (proxy_url ''?url=https://api.test/v1'' [(''url'', ''https://api.test/v1'')])"
      "searchParams_get
         (proxy_url ''?url=https://api.test/v1'' [(''url'', ''https://api.test/v1'')]) ''url''
         = Some ''https://api.test/v1'' \<and> ''https://api.test/v1'' \<noteq> []"
      "?new ''https://api.test/v1'' None = Some (target_url ''https:'' ''//api.test/v1'') \<and>
       (protocol (target_url ''https:'' ''//api.test/v1'') = ''http:'' \<or>
        protocol (target_url ''https:'' ''//api.test/v1'') = ''https:'')"
    by (simp_all add: req_post_def sample_request_def js_get_def newURL_sample
        sample_urls_def sample_base_def searchParams_get_def proxy_url_def target_url_def)
  show ?thesis
    using C5_target_resolution [OF missing(1,2) allowed_samples(1) missing(3)] missing(4)
      C5_target_resolution [OF bad(1,2) allowed_samples(1) bad(3)] bad(4,5)
      C5_target_resolution [OF ftp(1,2) allowed_samples(1) ftp(3)] ftp(4,5)
      C5_target_resolution [OF post(1,2) allowed_samples(2) post(3)] post(4,5)
    by blast
qed

text \<open>
  The claim as first stated answers \<open>Invalid target URL\<close> whenever the parameter is
  present and does not parse. The request \<^verbatim>\<open>GET /proxy?url=\<close> has the parameter, with the
  empty value, which does not parse; it is answered \<open>Missing ?url= parameter\<close>.
\<close>

theorem C5_empty_url_counterexample:
  "req_method req_empty_url \<noteq> ''OPTIONS'' \<and>
   js_get (headers req_empty_url) ''origin'' = Some ''https://runbookai.net'' \<and>
   ''https://runbookai.net'' \<in> ALLOWED_ORIGINS \<and>
   newURL sample_platform (url req_empty_url) sample_base
     = Some (proxy_url ''?url='' [(''url'', [])]) \<and>
   searchParams_get (proxy_url ''?url='' [(''url'', [])]) ''url'' = Some [] \<and>
   newURL sample_platform [] None = None \<and>
   res_body (the (sent (handler sample_platform req_empty_url)))
     = JSON [(''error'', ''Missing ?url= parameter'')]"
  by (simp add: req_empty_url_def sample_defs handler_def validate_def ALLOWED_ORIGINS_def
      corsHeaders_def respond_def js_get_def searchParams_get_def)

subsection \<open>Relay\<close>

text \<open>
  Claim C6, amended. When a dispatched request's upstream call succeeds (\<^verbatim>\<open>fetch\<close>
  resolves and the body is read), the response has the upstream's status, the
  upstream's body bytes, the request's \<open>Origin\<close> in the CORS headers, and as
  \<open>Content-Type\<close> the upstream's \<open>content-type\<close> when the upstream supplies one that is
  not empty, and \<open>application/json\<close> when it supplies none or an empty one.
\<close>

theorem C6_relay:
  assumes "validate env req = Inr (origin, tgt)"
      and "fetch env (fetch_args req tgt) = Inr up"
      and "arrayBuffer up = Inr respBody"
  shows "js_get (headers req) ''origin'' = Some origin \<and>
         sent (handler env req) =
           Some \<lparr>status = up_status up,
                 res_headers =
                   (''Content-Type'',
                    (case Headers_get (up_headers up) ''content-type'' of
                       None \<Rightarrow> ''application/json''
                     | Some ct \<Rightarrow> if ct = [] then ''application/json'' else ct))
                   # corsHeaders origin None,
                 res_body = Bytes respBody\<rparr>"
  using validate_InrD [OF assms(1)] forward_relayed [OF assms(2,3), of origin]
  by (simp add: handler_dispatched [OF assms(1)] or_else_cases)

theorem C6_relay_witness:
  "validate sample_platform req_post =
     Inr (''https://www.runbookai.net'', target_url ''https:'' ''//api.test/v1'') \<and>
   fetch sample_platform (fetch_args req_post (target_url ''https:'' ''//api.test/v1''))
     = Inr upstream_v1 \<and>
   arrayBuffer upstream_v1 = Inr [104, 105] \<and>
   up_status upstream_v1 = 201 \<and>
   Headers_get (up_headers upstream_v1) ''content-type'' = Some ''text/plain'' \<and>
   sent (handler sample_platform req_post) =
     Some \<lparr>status = 201,
           res_headers =
             (''Content-Type'', ''text/plain'') # corsHeaders ''https://www.runbookai.net'' None,
           res_body = Bytes [104, 105]\<rparr>"
proof -
  have a: "arrayBuffer upstream_v1 = Inr [104, 105]"
    and s: "up_status upstream_v1 = 201"
       "Headers_get (up_headers upstream_v1) ''content-type'' = Some ''text/plain''"
    by (simp_all add: upstream_v1_def Headers_get_def toLowerCase_def lower_char_def)
  show ?thesis
    using C6_relay [OF validate_req_post fetch_samples(1) a] validate_req_post
      fetch_samples(1) a s
    by simp
qed

text \<open>
  The claim as first stated relays the upstream's \<open>content-type\<close> whenever the upstream
  supplies it. An upstream that supplies the header with the empty value is relayed
  with \<open>application/json\<close>.
\<close>

theorem C6_empty_content_type_counterexample:
  "validate sample_platform req_bare =
     Inr (''https://runbookai.net'', target_url ''https:'' ''//api.test/bare'') \<and>
   fetch sample_platform (fetch_args req_bare (target_url ''https:'' ''//api.test/bare''))
     = Inr upstream_bare \<and>
   arrayBuffer upstream_bare = Inr [123, 125] \<and>
   Headers_get (up_headers upstream_bare) ''content-type'' = Some [] \<and>
   js_get (res_headers (the (sent (handler sample_platform req_bare)))) ''Content-Type''
     = Some ''application/json''"
proof -
  have a: "arrayBuffer upstream_bare = Inr [123, 125]"
    and c: "Headers_get (up_headers upstream_bare) ''content-type'' = Some []"
    by (simp_all add: upstream_bare_def Headers_get_def toLowerCase_def lower_char_def)
  show ?thesis
    using validate_req_bare fetch_samples(2) a c
    by (simp add: handler_dispatched [OF validate_req_bare]
        forward_relayed [OF fetch_samples(2) a] js_get_def)
qed

text \<open>
  Claim C7. When the upstream call of a dispatched request fails (\<^verbatim>\<open>fetch\<close> rejects, or
  reading the body does), the response is 502 with the JSON body
  \<open>{"error":"Upstream error","message":m}\<close>, \<open>m\<close> the message of the failure, and with
  the CORS headers for the request's \<open>Origin\<close>; the failure is logged; and the handler
  has called the upstream exactly once.
\<close>

theorem C7_upstream_failure:
  assumes "validate env req = Inr (origin, tgt)"
      and "fetch env (fetch_args req tgt) = Inl message \<or>
           (\<exists>up. fetch env (fetch_args req tgt) = Inr up \<and> arrayBuffer up = Inl message)"
  shows "js_get (headers req) ''origin'' = Some origin \<and>
         sent (handler env req) =
           Some \<lparr>status = 502,
                 res_headers = (''Content-Type'', ''application/json'') # corsHeaders origin None,
                 res_body = JSON [(''error'', ''Upstream error''), (''message'', message)]\<rparr> \<and>
         upstream_calls (handler env req) = [fetch_args req tgt] \<and>
         length (upstream_calls (handler env req)) = 1 \<and>
         console_error (handler env req) = [[''[proxy] upstream error:'', message]]"
  using assms(2) validate_InrD [OF assms(1)]
    forward_fetch_failed [of env req tgt message origin]
    forward_body_failed [of env req tgt _ message origin]
  by (auto simp: handler_dispatched [OF assms(1)])

theorem C7_upstream_failure_witness:
  "validate sample_platform req_down =
     Inr (''http://localhost:9003'', target_url ''https:'' ''//down.test/'') \<and>
   fetch sample_platform (fetch_args req_down (target_url ''https:'' ''//down.test/''))
     = Inl ''fetch failed'' \<and>
   sent (handler sample_platform req_down) =
     Some \<lparr>status = 502,
           res_headers =
             (''Content-Type'', ''application/json'') # corsHeaders ''http://localhost:9003'' None,
           res_body = JSON [(''error'', ''Upstream error''), (''message'', ''fetch failed'')]\<rparr> \<and>
   length (upstream_calls (handler sample_platform req_down)) = 1"
  using C7_upstream_failure [OF validate_req_down disjI1 [OF fetch_samples(3)]]
    validate_req_down fetch_samples(3)
  by simp



subsection \<open>Response headers\<close>

text \<open>
  Claim C9. Whenever the handler writes a response: if the request is not \<open>OPTIONS\<close>
  and its \<open>Origin\<close> is allowlisted, the header names of the response are exactly
  \<open>Content-Type\<close> and the four CORS headers, the CORS headers are those of the request's
  \<open>Origin\<close>, and the content type is \<open>application/json\<close> or the \<open>content-type\<close> of the
  upstream response, so that no other upstream header is relayed; and in every
  response that has \<open>Access-Control-Allow-Origin\<close>, its value is the request's own
  \<open>Origin\<close>, a member of the allowlist, and not \<open>*\<close>.
\<close>

theorem C9_response_headers:
  assumes "sent (handler env req) = Some r"
  shows "(req_method req \<noteq> ''OPTIONS'' \<and>
          (\<exists>origin. js_get (headers req) ''origin'' = Some origin \<and> origin \<in> ALLOWED_ORIGINS) \<longrightarrow>
            map fst (res_headers r) =
              [''Content-Type'', ''Access-Control-Allow-Origin'', ''Access-Control-Allow-Methods'',
               ''Access-Control-Allow-Headers'', ''Access-Control-Max-Age''] \<and>
            (\<exists>ct origin. js_get (headers req) ''origin'' = Some origin \<and>
               res_headers r = (''Content-Type'', ct) # corsHeaders origin None \<and>
               (ct = ''application/json'' \<or>
                (\<exists>init up. init \<in> set (upstream_calls (handler env req)) \<and>
                   fetch env init = Inr up \<and>
                   Headers_get (up_headers up) ''content-type'' = Some ct)))) \<and>
         (\<forall>v. js_get (res_headers r) ''Access-Control-Allow-Origin'' = Some v \<longrightarrow>
            js_get (headers req) ''origin'' = Some v \<and> v \<in> ALLOWED_ORIGINS \<and> v \<noteq> ''*'')"
proof (cases "validate env req")
  case (Inl out)
  then have "sent out = Some r" using assms handler_Inl by simp
  from validate_Inl_sent [OF Inl this] show ?thesis
  proof (elim disjE exE conjE)
    assume "cors_free (res_headers r)"
      "\<forall>origin. js_get (headers req) ''origin'' = Some origin \<longrightarrow> origin \<notin> ALLOWED_ORIGINS"
    then show ?thesis by (auto simp: cors_free_def corsHeaders_def)
  next
    fix origin
    assume "js_get (headers req) ''origin'' = Some origin" "origin \<in> ALLOWED_ORIGINS"
      "if req_method req = ''OPTIONS''
       then res_headers r =
              corsHeaders origin (js_get (headers req) ''access-control-request-headers'')
       else res_headers r = (''Content-Type'', ''application/json'') # corsHeaders origin None"
    then show ?thesis
      using star_not_allowed by (auto simp: cors_origin cors_keys split: if_splits)
  qed
next
  case (Inr p)
  obtain origin tgt where v: "validate env req = Inr (origin, tgt)" using Inr by (cases p) simp
  note h = handler_dispatched [OF v]
  obtain ct where "res_headers r = (''Content-Type'', ct) # corsHeaders origin None"
    "ct = ''application/json'' \<or>
     (\<exists>up. fetch env (fetch_args req tgt) = Inr up \<and>
          Headers_get (up_headers up) ''content-type'' = Some ct)"
    using forward_sent [of env req origin tgt r] assms h by auto
  moreover have "fetch_args req tgt \<in> set (upstream_calls (handler env req))"
    by (simp add: h forward_calls)
  ultimately show ?thesis
    using validate_InrD [OF v] star_not_allowed by (auto simp: cors_origin cors_keys)
qed

theorem C9_response_headers_witness:
  "req_method req_post \<noteq> ''OPTIONS'' \<and>
   js_get (headers req_post) ''origin'' = Some ''https://www.runbookai.net'' \<and>
   ''https://www.runbookai.net'' \<in> ALLOWED_ORIGINS \<and>
   Headers_get (up_headers upstream_v1) ''set-cookie'' = Some ''sid=1'' \<and>
   status (the (sent (handler sample_platform req_post))) = 201 \<and>
   map fst (res_headers (the (sent (handler sample_platform req_post)))) =
     [''Content-Type'', ''Access-Control-Allow-Origin'', ''Access-Control-Allow-Methods'',
      ''Access-Control-Allow-Headers'', ''Access-Control-Max-Age'']"
proof -
  let ?r = "the (sent (handler sample_platform req_post))"
  have a: "arrayBuffer upstream_v1 = Inr [104, 105]"
    and c: "Headers_get (up_headers upstream_v1) ''set-cookie'' = Some ''sid=1''"
       "up_status upstream_v1 = 201"
    by (simp_all add: upstream_v1_def Headers_get_def toLowerCase_def lower_char_def)
  have s: "sent (handler sample_platform req_post) = Some ?r" "status ?r = 201"
    by (simp_all add: handler_dispatched [OF validate_req_post]
        forward_relayed [OF fetch_samples(1) a] c)
  have m: "req_method req_post \<noteq> ''OPTIONS''"
       "js_get (headers req_post) ''origin'' = Some ''https://www.runbookai.net''"
    by (simp_all add: req_post_def sample_request_def js_get_def)
  show ?thesis using C9_response_headers [OF s(1)] s(2) m allowed_samples(2) c(1) by blast
qed

subsection \<open>Independence of the values of stripped headers\<close>

text \<open>
  Claim C10. Two requests with allowlisted origins, with the same method, target and
  body, and with the same header names in the same order, whose header values differ
  only at names that are in \<open>HOP_BY_HOP\<close>, in \<open>BROWSER_ONLY\<close> or begin with \<open>sec-\<close>,
  have the same forwarded headers, and the handler makes the same upstream calls for
  both.
\<close>

theorem C10_stripped_values_irrelevant:
  assumes "list_all2
             (\<lambda>(k1, v1) (k2, v2).
                 k1 = k2 \<and>
                 (v1 \<noteq> v2 \<longrightarrow>
                    toLowerCase k1 \<in> HOP_BY_HOP \<or> toLowerCase k1 \<in> BROWSER_ONLY \<or>
                    startsWith (toLowerCase k1) ''sec-''))
             (headers req1) (headers req2)"
      and "req_method req1 = req_method req2" "url req1 = url req2" "chunks req1 = chunks req2"
      and "js_get (headers req1) ''origin'' = Some origin1" "origin1 \<in> ALLOWED_ORIGINS"
      and "js_get (headers req2) ''origin'' = Some origin2" "origin2 \<in> ALLOWED_ORIGINS"
  shows "forwardHeaders (headers req1) = forwardHeaders (headers req2) \<and>
         upstream_calls (handler env req1) = upstream_calls (handler env req2)"
proof -
  have "list_all2 (\<lambda>(k1, v1) (k2, v2). k1 = k2 \<and> (v1 = v2 \<or> \<not> copied k1))
          (headers req1) (headers req2)"
    using assms(1) by (rule list_all2_mono) (auto simp: copied_def Let_def)
  then have fh: "forwardHeaders (headers req1) = forwardHeaders (headers req2)"
    by (simp add: forwardHeaders_def forward_loop_rel)
  have args: "fetch_args req1 tgt = fetch_args req2 tgt" for tgt
    using fh assms(2,4) by (simp add: fetch_args_def readBody_def)
  have fwd: "validate env req2 = Inr (origin2, tgt)" if "validate env req1 = Inr (o1, tgt)"
    for o1 tgt
    using validate_same_target [OF that _ _ assms(7,8)] assms(2,3) by simp
  have bwd: "validate env req1 = Inr (origin1, tgt)" if "validate env req2 = Inr (o2, tgt)"
    for o2 tgt
    using validate_same_target [OF that _ _ assms(5,6)] assms(2,3) by simp
  have "upstream_calls (handler env req1) = upstream_calls (handler env req2)"
  proof (cases "validate env req1")
    case (Inr p)
    then obtain o1 tgt where v: "validate env req1 = Inr (o1, tgt)" by (cases p) simp
    show ?thesis
      by (simp add: handler_dispatched [OF v] handler_dispatched [OF fwd [OF v]]
          forward_calls args)
  next
    case l1: (Inl out1)
    then obtain out2 where l2: "validate env req2 = Inl out2"
      using bwd by (cases "validate env req2") auto
    show ?thesis
      by (simp add: handler_Inl [OF l1] handler_Inl [OF l2]
          validate_Inl_calls [OF l1] validate_Inl_calls [OF l2])
  qed
  then show ?thesis using fh by simp
qed

theorem C10_stripped_values_irrelevant_witness:
  "map fst (headers req_post) = map fst (headers req_post_other) \<and>
   js_get (headers req_post) ''cookie'' = Some ''session=1'' \<and>
   js_get (headers req_post_other) ''cookie'' = Some ''session=2; theme=dark'' \<and>
   js_get (headers req_post) ''origin'' = Some ''https://www.runbookai.net'' \<and>
   js_get (headers req_post_other) ''origin'' = Some ''https://runbookai.net'' \<and>
   forwardHeaders (headers req_post) = forwardHeaders (headers req_post_other) \<and>
   upstream_calls (handler sample_platform req_post) =
     upstream_calls (handler sample_platform req_post_other)"
proof -
  have low: "toLowerCase ''host'' = ''host''" "toLowerCase ''origin'' = ''origin''"
       "toLowerCase ''cookie'' = ''cookie''" "toLowerCase ''user-agent'' = ''user-agent''"
       "toLowerCase ''sec-fetch-mode'' = ''sec-fetch-mode''"
    by (simp_all add: toLowerCase_def lower_char_def)
  have strip: "''host'' \<in> HOP_BY_HOP" "''origin'' \<in> HOP_BY_HOP" "''cookie'' \<in> HOP_BY_HOP"
       "''user-agent'' \<in> BROWSER_ONLY" "startsWith ''sec-fetch-mode'' ''sec-''"
    by (simp_all add: HOP_BY_HOP_def BROWSER_ONLY_def startsWith_def)
  have rel: "list_all2
             (\<lambda>(k1, v1) (k2, v2).
                 k1 = k2 \<and>
                 (v1 \<noteq> v2 \<longrightarrow>
                    toLowerCase k1 \<in> HOP_BY_HOP \<or> toLowerCase k1 \<in> BROWSER_ONLY \<or>
                    startsWith (toLowerCase k1) ''sec-''))
             (headers req_post) (headers req_post_other)"
    unfolding req_post_def req_post_other_def sample_request_def request.simps
      list_all2_Cons list_all2_Nil2 prod.case
    using strip by (simp only: low simp_thms)
  have facts: "req_method req_post = req_method req_post_other"
       "url req_post = url req_post_other" "chunks req_post = chunks req_post_other"
       "js_get (headers req_post) ''origin'' = Some ''https://www.runbookai.net''"
       "js_get (headers req_post_other) ''origin'' = Some ''https://runbookai.net''"
       "map fst (headers req_post) = map fst (headers req_post_other)"
       "js_get (headers req_post) ''cookie'' = Some ''session=1''"
       "js_get (headers req_post_other) ''cookie'' = Some ''session=2; theme=dark''"
    by (simp_all add: req_post_def req_post_other_def sample_request_def js_get_def)
  show ?thesis
    using C10_stripped_values_irrelevant
            [OF rel facts(1-4) allowed_samples(2) facts(5) allowed_samples(1), of sample_platform]
          facts(4-8)
    by blast
qed

end
